theory Spec2Isabelle
  imports Complex_Main
begin

text \<open>
  A model of \<open>spinup/examples/pytorch/pg_math/1_simple_pg.py\<close>, the simplest policy-gradient
  trainer. The libraries the script calls (the environment, the network's forward pass,
  sampling, automatic differentiation) are parameters of the model; the script's own control
  flow and bookkeeping are modelled as written. Rewards, log-probabilities and the printed
  loss are real numbers; the parameters, their gradient buffer and the optimizer's state are
  floating-point tensors, with the special values and the rounding of their format.
\<close>

section \<open>The network builder\<close>

text \<open>
  The modules that \<open>mlp\<close> puts into its \<open>nn.Sequential\<close>: a linear layer with its input
  and output dimension, and the two activation classes that appear in the program.
\<close>

datatype module = Linear nat nat | Tanh | Identity

text \<open>
  \<^verbatim>\<open>
  def mlp(sizes, activation=nn.Tanh, output_activation=nn.Identity):
      layers = []
      for j in range(len(sizes)-1):
          act = activation if j < len(sizes)-2 else output_activation
          layers += [nn.Linear(sizes[j], sizes[j+1]), act()]
      return nn.Sequential(*layers)
  \<close>
  The loop runs over \<open>range(len(sizes)-1)\<close>, which is empty when \<open>sizes\<close> has fewer than
  two entries; the comparison \<open>j < len(sizes)-2\<close> is one of Python integers.
\<close>

definition mlp_layer :: "nat list \<Rightarrow> module \<Rightarrow> module \<Rightarrow> nat \<Rightarrow> module list" where
  "mlp_layer sizes activation output_activation j =
     (let act = (if int j < int (length sizes) - 2 then activation else output_activation)
      in [Linear (sizes ! j) (sizes ! (j + 1)), act])"

definition mlp :: "nat list \<Rightarrow> module \<Rightarrow> module \<Rightarrow> module list" where
  "mlp sizes activation output_activation =
     foldl (\<lambda>layers j. layers @ mlp_layer sizes activation output_activation j)
       [] [0 ..< length sizes - 1]"

section \<open>Errors and printed output\<close>

text \<open>
  The exceptions that can leave \<open>train\<close>. Only \<open>AssertionError\<close> is raised by the script
  itself; the others come from the libraries it calls. \<open>NaNLoss\<close> is not an exception: it
  marks a loss that is not a number (the mean of an empty tensor), which the model, whose
  loss is a real number, does not carry further.
\<close>

datatype error =
    AssertionError string
  | IndexError
  | ValueError
  | RuntimeError
  | GymError string
  | NaNLoss

text \<open>The two kinds of line the script prints.\<close>

datatype line =
    EpisodeLength nat
  | EpochLine nat real "real option" "real option"

section \<open>Floating-point tensors\<close>

text \<open>
  An element of a tensor: a finite number, an infinity, or not-a-number. The two zeros of
  the format are not told apart (a division by zero takes the zero as positive).
\<close>

datatype fnum = Fin real | PInf | NInf | NaN


fun fin_val :: "fnum \<Rightarrow> real" where
  "fin_val (Fin x) = x"
| "fin_val PInf = 0"
| "fin_val NInf = 0"
| "fin_val NaN = 0"

text \<open>
  The arithmetic of the tensors. \<open>rnd\<close> is the rounding of the tensors' format (float32 in
  the script): it gives the element stored for an exact result, an infinity when the result
  overflows. It is a parameter of the model, so that what is proved holds whatever the
  rounding. A result that is exactly zero, and a sum with a zero operand, are exact in every
  format. The special values follow the floating-point standard.
\<close>

definition to_float :: "(real \<Rightarrow> fnum) \<Rightarrow> real \<Rightarrow> fnum" where
  "to_float rnd x = (if x = 0 then Fin 0 else rnd x)"

fun fadd :: "(real \<Rightarrow> fnum) \<Rightarrow> fnum \<Rightarrow> fnum \<Rightarrow> fnum" where
  "fadd rnd (Fin x) (Fin y) = (if y = 0 then Fin x else if x = 0 then Fin y else rnd (x + y))"
| "fadd rnd NaN b = NaN"
| "fadd rnd a NaN = NaN"
| "fadd rnd PInf NInf = NaN"
| "fadd rnd NInf PInf = NaN"
| "fadd rnd PInf b = PInf"
| "fadd rnd a PInf = PInf"
| "fadd rnd NInf b = NInf"
| "fadd rnd a NInf = NInf"

fun fneg :: "fnum \<Rightarrow> fnum" where
  "fneg (Fin x) = Fin (- x)"
| "fneg PInf = NInf"
| "fneg NInf = PInf"
| "fneg NaN = NaN"

definition fsub :: "(real \<Rightarrow> fnum) \<Rightarrow> fnum \<Rightarrow> fnum \<Rightarrow> fnum" where
  "fsub rnd a b = fadd rnd a (fneg b)"

text \<open>An infinity of the sign of \<open>x\<close>, or not-a-number when \<open>x\<close> is zero.\<close>

definition signed_inf :: "real \<Rightarrow> fnum" where
  "signed_inf x = (if x = 0 then NaN else if 0 < x then PInf else NInf)"

fun fmul :: "(real \<Rightarrow> fnum) \<Rightarrow> fnum \<Rightarrow> fnum \<Rightarrow> fnum" where
  "fmul rnd (Fin x) (Fin y) = (if x = 0 \<or> y = 0 then Fin 0 else rnd (x * y))"
| "fmul rnd NaN b = NaN"
| "fmul rnd a NaN = NaN"
| "fmul rnd (Fin x) PInf = signed_inf x"
| "fmul rnd (Fin x) NInf = signed_inf (- x)"
| "fmul rnd PInf (Fin y) = signed_inf y"
| "fmul rnd NInf (Fin y) = signed_inf (- y)"
| "fmul rnd PInf PInf = PInf"
| "fmul rnd NInf NInf = PInf"
| "fmul rnd PInf NInf = NInf"
| "fmul rnd NInf PInf = NInf"

fun fdiv :: "(real \<Rightarrow> fnum) \<Rightarrow> fnum \<Rightarrow> fnum \<Rightarrow> fnum" where
  "fdiv rnd (Fin x) (Fin y) =
     (if y = 0 then signed_inf x else if x = 0 then Fin 0 else rnd (x / y))"
| "fdiv rnd NaN b = NaN"
| "fdiv rnd a NaN = NaN"
| "fdiv rnd (Fin x) PInf = Fin 0"
| "fdiv rnd (Fin x) NInf = Fin 0"
| "fdiv rnd PInf (Fin y) = (if 0 \<le> y then PInf else NInf)"
| "fdiv rnd NInf (Fin y) = (if 0 \<le> y then NInf else PInf)"
| "fdiv rnd PInf b = NaN"
| "fdiv rnd NInf b = NaN"

fun fsqrt :: "(real \<Rightarrow> fnum) \<Rightarrow> fnum \<Rightarrow> fnum" where
  "fsqrt rnd (Fin x) = (if x < 0 then NaN else if x = 0 then Fin 0 else rnd (sqrt x))"
| "fsqrt rnd PInf = PInf"
| "fsqrt rnd NInf = NaN"
| "fsqrt rnd NaN = NaN"


section \<open>The environment\<close>

datatype space = Box "nat list" | Discrete nat | OtherSpace

text \<open>What \<open>env.step(act)\<close> returns; the script ignores the last two components.\<close>

record 'o step_result =
  sr_obs :: 'o
  sr_reward :: real
  sr_terminated :: bool
  sr_truncated :: bool

text \<open>
  An environment object. The hidden state \<open>'w\<close> holds everything a call can read or change:
  the simulator's state and the random number generators.
\<close>

record ('o, 'w) gym_env =
  observation_space :: space
  action_space :: space
  env_reset :: "'w \<Rightarrow> 'o \<times> 'w"
  env_step :: "'w \<Rightarrow> nat \<Rightarrow> 'o step_result \<times> 'w"
  env_render :: "'w \<Rightarrow> 'w"

section \<open>The policy\<close>

text \<open>
  What the script uses of the network \<open>logits_net\<close> and of \<open>Categorical\<close>, for a parameter
  tensor \<open>\<theta>\<close> (all parameters of the network, flattened):
  \<^item> \<open>init_params\<close>: the random initial parameters of the freshly built network;
  \<^item> \<open>sample \<theta> obs\<close>: \<open>get_policy(obs).sample().item()\<close>, which draws from the generator;
  \<^item> \<open>log_prob \<theta> obs act\<close>: \<open>get_policy(obs).log_prob(act)\<close> for one observation and action;
  \<^item> \<open>dlog_prob \<theta> obs act i\<close>: the partial derivative of that log-probability with respect
    to the \<open>i\<close>-th parameter, which automatic differentiation computes.
\<close>

record ('o, 'w) policy =
  init_params :: "'w \<Rightarrow> fnum list \<times> 'w"
  sample :: "fnum list \<Rightarrow> 'o \<Rightarrow> 'w \<Rightarrow> nat \<times> 'w"
  log_prob :: "fnum list \<Rightarrow> 'o \<Rightarrow> nat \<Rightarrow> real"
  dlog_prob :: "fnum list \<Rightarrow> 'o \<Rightarrow> nat \<Rightarrow> nat \<Rightarrow> real"

definition get_action :: "('o, 'w) policy \<Rightarrow> fnum list \<Rightarrow> 'o \<Rightarrow> 'w \<Rightarrow> nat \<times> 'w" where
  "get_action P \<theta> obs w = sample P \<theta> obs w"

section \<open>The loss\<close>

text \<open>
  Element-wise operations on two one-dimensional tensors broadcast: equal lengths pair up,
  a tensor of length one is repeated, anything else raises \<open>RuntimeError\<close>.
\<close>

definition broadcast :: "'a list \<Rightarrow> 'b list \<Rightarrow> error + ('a \<times> 'b) list" where
  "broadcast xs ys =
     (if length xs = length ys then Inr (zip xs ys)
      else if length xs = 1 then Inr (map (\<lambda>y. (hd xs, y)) ys)
      else if length ys = 1 then Inr (map (\<lambda>x. (x, hd ys)) xs)
      else Inl RuntimeError)"

text \<open>The mean of a tensor; of an empty tensor it is not a number (\<open>None\<close>).\<close>

definition tensor_mean :: "real list \<Rightarrow> real option" where
  "tensor_mean xs = (if xs = [] then None else Some (sum_list xs / real (length xs)))"

text \<open>
  \<^verbatim>\<open>
  def compute_loss(obs, act, weights):
      logp = get_policy(obs).log_prob(act)
      return -(logp * weights).mean()
  \<close>
\<close>

definition compute_loss ::
  "('o, 'w) policy \<Rightarrow> fnum list \<Rightarrow> 'o list \<Rightarrow> nat list \<Rightarrow> real list \<Rightarrow> error + real option" where
  "compute_loss P \<theta> obs act weights =
     (case broadcast obs act of
        Inl e \<Rightarrow> Inl e
      | Inr oas \<Rightarrow>
          (let logp = map (\<lambda>(ob, a). log_prob P \<theta> ob a) oas in
           case broadcast logp weights of
             Inl e \<Rightarrow> Inl e
           | Inr lws \<Rightarrow> Inr (map_option uminus (tensor_mean (map (\<lambda>(l, w). l * w) lws)))))"

text \<open>
  The exact gradient of that loss with respect to the parameters: differentiation is linear,
  so the \<open>i\<close>-th component is the negated mean of the weighted partial derivatives of the
  log-probabilities. It has one component per parameter.
\<close>

definition loss_gradient ::
  "('o, 'w) policy \<Rightarrow> fnum list \<Rightarrow> 'o list \<Rightarrow> nat list \<Rightarrow> real list \<Rightarrow> real list" where
  "loss_gradient P \<theta> obs act weights =
     (case broadcast obs act of
        Inl e \<Rightarrow> []
      | Inr oas \<Rightarrow>
          (case broadcast oas weights of
             Inl e \<Rightarrow> []
           | Inr ts \<Rightarrow>
               map (\<lambda>i. - (sum_list (map (\<lambda>((ob, a), w). dlog_prob P \<theta> ob a i * w) ts)
                             / real (length ts)))
                 [0 ..< length \<theta>]))"

text \<open>
  \<open>batch_loss.backward()\<close> computes the gradient as a tensor and adds it to the \<open>.grad\<close>
  buffer of the parameters; a buffer that does not exist yet (\<open>None\<close>) is created from the
  new gradient. The tensor is taken to hold the exact gradient as the format stores it (the
  rounding inside automatic differentiation is not followed operation by operation).
\<close>

definition backward ::
  "(real \<Rightarrow> fnum) \<Rightarrow> fnum list option \<Rightarrow> real list \<Rightarrow> fnum list option" where
  "backward rnd buf g =
     (case buf of
        None \<Rightarrow> Some (map (to_float rnd) g)
      | Some old \<Rightarrow> Some (map2 (fadd rnd) old (map (to_float rnd) g)))"

section \<open>The optimizer\<close>

text \<open>
  \<open>Adam(logits_net.parameters(), lr=lr)\<close> with the library's default coefficients. The
  constructor rejects a negative learning rate. The moment estimates are created, as zeros,
  at the first step.
\<close>

record adam_state =
  step_count :: nat
  exp_avg :: "fnum list"
  exp_avg_sq :: "fnum list"

record optimizer =
  opt_lr :: real
  opt_state :: "adam_state option"

definition beta1 :: real where "beta1 = 9 / 10"
definition beta2 :: real where "beta2 = 999 / 1000"
definition adam_eps :: real where "adam_eps = 1 / 100000000"

definition Adam :: "real \<Rightarrow> error + optimizer" where
  "Adam lr = (if lr < 0 then Inl ValueError else Inr \<lparr>opt_lr = lr, opt_state = None\<rparr>)"

text \<open>
  \<open>optimizer.step()\<close>: parameters without a gradient buffer are skipped; otherwise
  \<^verbatim>\<open>
  step += 1
  exp_avg.lerp_(grad, 1 - beta1)
  exp_avg_sq.mul_(beta2).addcmul_(grad, grad, value=1 - beta2)
  step_size = lr / (1 - beta1 ** step)
  denom = (exp_avg_sq.sqrt() / sqrt(1 - beta2 ** step)).add_(eps)
  param.addcdiv_(exp_avg, denom, value=-step_size)
  \<close>
  The step count, the bias corrections and the step size are Python numbers, taken as exact;
  the operations on tensors are those of the tensors' format, element by element:
  \<open>lerp_\<close> is \<open>self + weight * (end - self)\<close>, \<open>addcmul_\<close> is \<open>self + value * t1 * t2\<close> and
  \<open>addcdiv_\<close> is \<open>self + value * t1 / t2\<close>.
\<close>

definition optimizer_step ::
  "(real \<Rightarrow> fnum) \<Rightarrow> optimizer \<Rightarrow> fnum list \<Rightarrow> fnum list option \<Rightarrow>
     optimizer \<times> fnum list" where
  "optimizer_step rnd opt \<theta> buf =
     (case buf of
        None \<Rightarrow> (opt, \<theta>)
      | Some g \<Rightarrow>
          (let st = (case opt_state opt of
                       None \<Rightarrow> \<lparr>step_count = 0, exp_avg = replicate (length \<theta>) (Fin 0),
                                 exp_avg_sq = replicate (length \<theta>) (Fin 0)\<rparr>
                     | Some st \<Rightarrow> st);
               t = step_count st + 1;
               m = map2 (\<lambda>m g. fadd rnd m (fmul rnd (Fin (1 - beta1)) (fsub rnd g m)))
                     (exp_avg st) g;
               v = map2 (\<lambda>v g. fadd rnd (fmul rnd v (Fin beta2))
                                    (fmul rnd (fmul rnd (Fin (1 - beta2)) g) g))
                     (exp_avg_sq st) g;
               step_size = opt_lr opt / (1 - beta1 ^ t);
               denom = map (\<lambda>v. fadd rnd (fdiv rnd (fsqrt rnd v) (Fin (sqrt (1 - beta2 ^ t))))
                                   (Fin adam_eps)) v;
               \<theta>' = map2 (\<lambda>p (m, d). fadd rnd p (fdiv rnd (fmul rnd (Fin (- step_size)) m) d))
                      \<theta> (zip m denom)
           in (opt\<lparr>opt_state := Some \<lparr>step_count = t, exp_avg = m, exp_avg_sq = v\<rparr>\<rparr>, \<theta>')))"

section \<open>Collecting one batch\<close>

text \<open>The local variables of \<open>train_one_epoch\<close> during the experience loop.\<close>

record ('o, 'w) collect_state =
  batch_obs :: "'o list"
  batch_acts :: "nat list"
  batch_weights :: "real list"
  batch_rets :: "real list"
  batch_lens :: "nat list"
  ep_rews :: "real list"
  obs :: 'o
  ep_done :: bool
  finished_rendering_this_epoch :: bool
  env_state :: 'w
  printed :: "line list"

text \<open>Python's \<open>sum\<close> adds from the left, starting at zero.\<close>

definition py_sum :: "real list \<Rightarrow> real" where
  "py_sum xs = foldl (+) 0 xs"

text \<open>
  One pass through the body of \<open>while True\<close>. The first component of the result tells
  whether the pass ended in \<open>break\<close>.
\<close>

definition loop_body ::
  "('o, 'w) gym_env \<Rightarrow> ('o, 'w) policy \<Rightarrow> fnum list \<Rightarrow> int \<Rightarrow> bool \<Rightarrow>
     ('o, 'w) collect_state \<Rightarrow> bool \<times> ('o, 'w) collect_state" where
  "loop_body E P \<theta> batch_size render s =
     (let w1 = (if \<not> finished_rendering_this_epoch s \<and> render
                then env_render E (env_state s) else env_state s);
          batch_obs' = batch_obs s @ [obs s];
          (act, w2) = get_action P \<theta> (obs s) w1;
          (r, w3) = env_step E w2 act;
          batch_acts' = batch_acts s @ [act];
          ep_rews' = ep_rews s @ [sr_reward r]
      in if sr_terminated r then
           (let ep_ret = py_sum ep_rews';
                ep_len = length ep_rews';
                (obs', w4) = env_reset E w3
            in (batch_size < int (length batch_obs'),
                \<lparr>batch_obs = batch_obs',
                 batch_acts = batch_acts',
                 batch_weights = batch_weights s @ replicate ep_len ep_ret,
                 batch_rets = batch_rets s @ [ep_ret],
                 batch_lens = batch_lens s @ [ep_len],
                 ep_rews = [],
                 obs = obs',
                 ep_done = False,
                 finished_rendering_this_epoch = True,
                 env_state = w4,
                 printed = printed s @ [EpisodeLength ep_len]\<rparr>))
         else
           (False,
            s\<lparr>batch_obs := batch_obs',
              batch_acts := batch_acts',
              ep_rews := ep_rews',
              obs := sr_obs r,
              ep_done := sr_terminated r,
              env_state := w3\<rparr>))"

text \<open>
  The loop itself. It ends only through \<open>break\<close>; when the environment never ends an episode
  late enough it runs forever, and the model returns \<open>None\<close>.
\<close>

partial_function (option) experience_loop ::
  "('o, 'w) gym_env \<Rightarrow> ('o, 'w) policy \<Rightarrow> fnum list \<Rightarrow> int \<Rightarrow> bool \<Rightarrow>
     ('o, 'w) collect_state \<Rightarrow> ('o, 'w) collect_state option" where
  "experience_loop E P \<theta> batch_size render s =
     (let (brk, s') = loop_body E P \<theta> batch_size render s
      in if brk then Some s' else experience_loop E P \<theta> batch_size render s')"

text \<open>The variables as they are set before the loop, from the first \<open>env.reset()\<close>.\<close>

definition init_collect :: "'o \<Rightarrow> 'w \<Rightarrow> line list \<Rightarrow> ('o, 'w) collect_state" where
  "init_collect ob w ls =
     \<lparr>batch_obs = [], batch_acts = [], batch_weights = [], batch_rets = [], batch_lens = [],
      ep_rews = [], obs = ob, ep_done = False, finished_rendering_this_epoch = False,
      env_state = w, printed = ls\<rparr>"

section \<open>One epoch and the training loop\<close>

text \<open>
  What outlives an epoch: the parameters of \<open>logits_net\<close>, their gradient buffer, the
  optimizer, the environment and the lines printed so far.
\<close>

record 'w train_state =
  params :: "fnum list"
  grad :: "fnum list option"
  optim :: optimizer
  world :: 'w
  out :: "line list"

type_synonym 'w failure = "error \<times> 'w \<times> line list"

text \<open>
  \<open>train_one_epoch\<close>: reset, collect, compute the loss, \<open>backward()\<close>, \<open>optimizer.step()\<close>.
  Nothing in it clears the gradient buffer.
\<close>

definition train_one_epoch ::
  "(real \<Rightarrow> fnum) \<Rightarrow> ('o, 'w) gym_env \<Rightarrow> ('o, 'w) policy \<Rightarrow> int \<Rightarrow> bool \<Rightarrow> 'w train_state \<Rightarrow>
     ('w failure + 'w train_state \<times> real \<times> real list \<times> nat list) option" where
  "train_one_epoch rnd E P batch_size render ts =
     (let (ob, w) = env_reset E (world ts) in
      case experience_loop E P (params ts) batch_size render (init_collect ob w (out ts)) of
        None \<Rightarrow> None
      | Some s \<Rightarrow>
          (case compute_loss P (params ts) (batch_obs s) (batch_acts s) (batch_weights s) of
             Inl e \<Rightarrow> Some (Inl (e, env_state s, printed s))
           | Inr None \<Rightarrow> Some (Inl (NaNLoss, env_state s, printed s))
           | Inr (Some batch_loss) \<Rightarrow>
               (let buf = backward rnd (grad ts)
                            (loss_gradient P (params ts) (batch_obs s) (batch_acts s)
                               (batch_weights s));
                    (opt', \<theta>') = optimizer_step rnd (optim ts) (params ts) buf
                in Some (Inr (\<lparr>params = \<theta>', grad = buf, optim = opt',
                                world = env_state s, out = printed s\<rparr>,
                              batch_loss, batch_rets s, batch_lens s)))))"

text \<open>\<open>np.mean\<close> of a list; of an empty list it is not a number.\<close>

definition np_mean :: "real list \<Rightarrow> real option" where
  "np_mean xs = (if xs = [] then None else Some (sum_list xs / real (length xs)))"

text \<open>The loop \<open>for i in range(epochs)\<close>, over the list of the remaining indices.\<close>

fun training_loop ::
  "(real \<Rightarrow> fnum) \<Rightarrow> ('o, 'w) gym_env \<Rightarrow> ('o, 'w) policy \<Rightarrow> int \<Rightarrow> bool \<Rightarrow> nat list \<Rightarrow>
     'w train_state \<Rightarrow> ('w failure + 'w train_state) option" where
  "training_loop rnd E P batch_size render [] ts = Some (Inr ts)"
| "training_loop rnd E P batch_size render (i # is) ts =
     (case train_one_epoch rnd E P batch_size render ts of
        None \<Rightarrow> None
      | Some (Inl e) \<Rightarrow> Some (Inl e)
      | Some (Inr (ts', batch_loss, rets, lens)) \<Rightarrow>
          training_loop rnd E P batch_size render is
            (ts'\<lparr>out := out ts' @
               [EpochLine i batch_loss (np_mean rets) (np_mean (map real lens))]\<rparr>))"

text \<open>
  \<open>train\<close>. \<open>rnd\<close> is the rounding of the tensors' format, \<open>gym\<close> stands for \<open>gym.make\<close>
  and \<open>torch\<close> for the library's meaning of a \<open>Sequential\<close> of modules; \<open>w\<close> is the state of
  the world at the call. The environment, the network and the sampling are taken to return;
  what they may raise is not modelled.
\<close>

definition msg_obs :: string where
  "msg_obs = ''This example only works for envs with continuous state spaces.''"

definition msg_act :: string where
  "msg_act = ''This example only works for envs with discrete action spaces.''"

definition train ::
  "(real \<Rightarrow> fnum) \<Rightarrow> (string \<Rightarrow> error + ('o, 'w) gym_env) \<Rightarrow>
     (module list \<Rightarrow> ('o, 'w) policy) \<Rightarrow>
     string \<Rightarrow> nat list \<Rightarrow> real \<Rightarrow> nat \<Rightarrow> int \<Rightarrow> bool \<Rightarrow> 'w \<Rightarrow>
     ('w failure + 'w train_state) option" where
  "train rnd gym torch env_name hidden_sizes lr epochs batch_size render w =
     (case gym env_name of
        Inl e \<Rightarrow> Some (Inl (e, w, []))
      | Inr E \<Rightarrow>
          (case observation_space E of
             Box shape \<Rightarrow>
               (case action_space E of
                  Discrete n_acts \<Rightarrow>
                    (case shape of
                       [] \<Rightarrow> Some (Inl (IndexError, w, []))
                     | obs_dim # _ \<Rightarrow>
                         (let P = torch (mlp ([obs_dim] @ hidden_sizes @ [n_acts]) Tanh Identity);
                              (\<theta>0, w0) = init_params P w
                          in case Adam lr of
                               Inl e \<Rightarrow> Some (Inl (e, w0, []))
                             | Inr opt \<Rightarrow>
                                 training_loop rnd E P batch_size render [0 ..< epochs]
                                   \<lparr>params = \<theta>0, grad = None, optim = opt,
                                    world = w0, out = []\<rparr>))
                | _ \<Rightarrow> Some (Inl (AssertionError msg_act, w, [])))
           | _ \<Rightarrow> Some (Inl (AssertionError msg_obs, w, []))))"

section \<open>Trajectories, for stating the properties\<close>

text \<open>
  The notions of the specification, defined on their own from the environment and the policy:
  a trajectory step, the trajectory that acting in the environment produces, its episodes and
  the step counts at which episodes end.
\<close>

record 'o transition =
  t_obs :: 'o
  t_act :: nat
  t_rew :: real
  t_term :: bool

text \<open>
  One interaction: the policy picks an action at the current observation, the environment
  answers, and after a terminal step the environment is reset. The flag says whether the
  first episode of the epoch is over (rendering happens before that only).
\<close>

definition interact ::
  "('o, 'w) gym_env \<Rightarrow> ('o, 'w) policy \<Rightarrow> fnum list \<Rightarrow> bool \<Rightarrow> 'o \<times> 'w \<times> bool \<Rightarrow>
     'o transition \<times> ('o \<times> 'w \<times> bool)" where
  "interact E P \<theta> render c =
     (case c of (ob, w, fin) \<Rightarrow>
        (let w1 = (if \<not> fin \<and> render then env_render E w else w);
             (a, w2) = sample P \<theta> ob w1;
             (r, w3) = env_step E w2 a
         in if sr_terminated r then
              (let (ob', w4) = env_reset E w3
               in (\<lparr>t_obs = ob, t_act = a, t_rew = sr_reward r, t_term = True\<rparr>, (ob', w4, True)))
            else
              (\<lparr>t_obs = ob, t_act = a, t_rew = sr_reward r, t_term = False\<rparr>,
               (sr_obs r, w3, fin))))"

text \<open>The first \<open>n\<close> steps of the trajectory from a starting point.\<close>

fun rollout ::
  "('o, 'w) gym_env \<Rightarrow> ('o, 'w) policy \<Rightarrow> fnum list \<Rightarrow> bool \<Rightarrow> nat \<Rightarrow> 'o \<times> 'w \<times> bool \<Rightarrow>
     'o transition list" where
  "rollout E P \<theta> render 0 c = []"
| "rollout E P \<theta> render (Suc n) c =
     (let (t, c') = interact E P \<theta> render c in t # rollout E P \<theta> render n c')"

text \<open>
  The reward lists of the episodes completed in a trajectory, in order; \<open>cur\<close> holds the
  rewards of the episode under way. An episode ends with its terminal step.
\<close>

fun episode_rewards :: "real list \<Rightarrow> 'o transition list \<Rightarrow> real list list" where
  "episode_rewards cur [] = []"
| "episode_rewards cur (t # ts) =
     (if t_term t then (cur @ [t_rew t]) # episode_rewards [] ts
      else episode_rewards (cur @ [t_rew t]) ts)"

text \<open>
  The episode boundaries of a trajectory: the numbers of steps taken when an episode ends,
  counted from \<open>k\<close> steps taken before.
\<close>

fun episode_ends :: "nat \<Rightarrow> 'o transition list \<Rightarrow> nat list" where
  "episode_ends k [] = []"
| "episode_ends k (t # ts) =
     (if t_term t then Suc k # episode_ends (Suc k) ts else episode_ends (Suc k) ts)"

text \<open>The weight list that gives every step of an episode the episode's return.\<close>

definition return_weights :: "real list list \<Rightarrow> real list" where
  "return_weights eps = concat (map (\<lambda>e. replicate (length e) (sum_list e)) eps)"

text \<open>
  \<open>collected \<dots> s s' n\<close>: the state \<open>s'\<close> is the state \<open>s\<close> after \<open>n\<close> more steps of the
  trajectory, the last of which ends an episode that is the first to end past the batch size,
  with the bookkeeping lists extended by the episodes completed on the way.
\<close>

definition collected ::
  "('o, 'w) gym_env \<Rightarrow> ('o, 'w) policy \<Rightarrow> fnum list \<Rightarrow> int \<Rightarrow> bool \<Rightarrow>
     ('o, 'w) collect_state \<Rightarrow> ('o, 'w) collect_state \<Rightarrow> nat \<Rightarrow> bool" where
  "collected E P \<theta> bs r s s' n \<longleftrightarrow>
     (let tr = rollout E P \<theta> r n (obs s, env_state s, finished_rendering_this_epoch s);
          eps = episode_rewards (ep_rews s) tr
      in 0 < n \<and>
         batch_obs s' = batch_obs s @ map t_obs tr \<and>
         batch_acts s' = batch_acts s @ map t_act tr \<and>
         batch_rets s' = batch_rets s @ map sum_list eps \<and>
         batch_lens s' = batch_lens s @ map length eps \<and>
         batch_weights s' = batch_weights s @ return_weights eps \<and>
         printed s' = printed s @ map (EpisodeLength \<circ> length) eps \<and>
         ep_rews s' = [] \<and>
         concat eps = ep_rews s @ map t_rew tr \<and>
         find (\<lambda>m. bs < int m) (episode_ends (length (batch_obs s)) tr)
           = Some (length (batch_obs s) + n))"

text \<open>
  For the properties of the training loop: the gradient buffer and the optimizer's moment
  estimates have the shape of the parameters; the number of steps the optimizer has taken;
  the epoch indices of the epoch lines among the printed lines.
\<close>

definition moments_ok :: "optimizer \<Rightarrow> nat \<Rightarrow> bool" where
  "moments_ok opt n \<longleftrightarrow>
     (case opt_state opt of
        None \<Rightarrow> True
      | Some st \<Rightarrow> length (exp_avg st) = n \<and> length (exp_avg_sq st) = n)"


definition steps_taken :: "optimizer \<Rightarrow> nat" where
  "steps_taken opt = (case opt_state opt of None \<Rightarrow> 0 | Some st \<Rightarrow> step_count st)"





section \<open>A stub environment and a stub policy\<close>

text \<open>
  An environment whose every episode ends after exactly two steps, each step with reward one.
  Its state counts the steps since the last reset.
\<close>

definition stub_env :: "(unit, nat) gym_env" where
  "stub_env =
     \<lparr>observation_space = Box [1],
      action_space = Discrete 2,
      env_reset = (\<lambda>w. ((), 0)),
      env_step = (\<lambda>w a. (\<lparr>sr_obs = (), sr_reward = 1, sr_terminated = (2 \<le> w + 1),
                            sr_truncated = False\<rparr>, w + 1)),
      env_render = (\<lambda>w. w)\<rparr>"

text \<open>
  A policy over two actions whose logits are its two parameters, whatever the observation;
  at parameters \<open>[0, 0]\<close> the logits are uniform. Sampling is deterministic and always
  yields action 0.
\<close>

definition stub_policy :: "(unit, nat) policy" where
  "stub_policy =
     \<lparr>init_params = (\<lambda>w. ([Fin 0, Fin 0], w)),
      sample = (\<lambda>\<theta> ob w. (0, w)),
      log_prob = (\<lambda>\<theta> ob a. fin_val (\<theta> ! a)
                               - ln (exp (fin_val (\<theta> ! 0)) + exp (fin_val (\<theta> ! 1)))),
      dlog_prob = (\<lambda>\<theta> ob a i. (if i = a then 1 else 0)
                                 - exp (fin_val (\<theta> ! i))
                                     / (exp (fin_val (\<theta> ! 0)) + exp (fin_val (\<theta> ! 1))))\<rparr>"

definition stub_gym :: "string \<Rightarrow> error + (unit, nat) gym_env" where
  "stub_gym env_name = Inr stub_env"

definition stub_torch :: "module list \<Rightarrow> (unit, nat) policy" where
  "stub_torch net = stub_policy"







section \<open>Theorems\<close>

lemma foldl_append_concat:
  "foldl (\<lambda>acc j. acc @ f j) a xs = a @ concat (map f xs)"
  by (induction xs arbitrary: a) simp_all

lemma mlp_concat:
  "mlp sizes a b = concat (map (mlp_layer sizes a b) [0 ..< length sizes - 1])"
  by (simp add: mlp_def foldl_append_concat)

lemma concat_pairs_length:
  "length (concat (map (\<lambda>j. [f j, g j]) [0 ..< n])) = 2 * n"
  by (induction n) simp_all

lemma concat_pairs_nth:
  "j < n \<Longrightarrow>
     concat (map (\<lambda>j. [f j, g j]) [0 ..< n]) ! (2 * j) = f j \<and>
     concat (map (\<lambda>j. [f j, g j]) [0 ..< n]) ! (2 * j + 1) = g j"
proof (induction n)
  case 0
  then show ?case by simp
next
  case (Suc n)
  show ?case
  proof (cases "j < n")
    case True
    with Suc.IH show ?thesis
      by (simp add: nth_append concat_pairs_length)
  next
    case False
    with Suc.prems have "j = n" by simp
    then show ?thesis
      by (simp add: nth_append concat_pairs_length)
  qed
qed

text \<open>
  C9. For a size list with at least two entries \<open>[s0, ..., sn]\<close>, \<open>mlp\<close> returns \<open>n\<close> stages
  of two modules each: stage \<open>j\<close> is the linear layer from \<open>sizes ! j\<close> to \<open>sizes ! (j+1)\<close>
  followed by the hidden activation, except the last stage, which is followed by the output
  activation.
\<close>

theorem mlp_stages:
  assumes "2 \<le> length sizes"
  shows "length (mlp sizes activation output_activation) = 2 * (length sizes - 1) \<and>
         (\<forall>j < length sizes - 1.
            mlp sizes activation output_activation ! (2 * j) = Linear (sizes ! j) (sizes ! (j + 1)) \<and>
            mlp sizes activation output_activation ! (2 * j + 1) =
              (if j + 1 < length sizes - 1 then activation else output_activation))"
proof -
  let ?f = "\<lambda>j. Linear (sizes ! j) (sizes ! (j + 1))"
  let ?g = "\<lambda>j. if int j < int (length sizes) - 2 then activation else output_activation"
  have eq: "mlp sizes activation output_activation =
              concat (map (\<lambda>j. [?f j, ?g j]) [0 ..< length sizes - 1])"
    unfolding mlp_concat by (rule arg_cong [where f = concat], rule map_cong) (simp_all add: mlp_layer_def)
  have g: "?g j = (if j + 1 < length sizes - 1 then activation else output_activation)" for j
    using assms by auto
  show ?thesis
    unfolding eq using concat_pairs_nth [of _ "length sizes - 1" ?f ?g]
    by (simp add: concat_pairs_length g)
qed

theorem mlp_stages_witness:
  "2 \<le> length [4::nat, 32, 2] \<and>
   mlp [4, 32, 2] Tanh Identity = [Linear 4 32, Tanh, Linear 32 2, Identity]"
  using mlp_stages [of "[4, 32, 2]" Tanh Identity]
  by (simp add: mlp_def mlp_layer_def)

subsection \<open>The experience loop follows the trajectory\<close>

lemma experience_loop_induct:
  assumes run: "experience_loop E P \<theta> bs r s = Some y"
    and brk: "\<And>s s'. loop_body E P \<theta> bs r s = (True, s') \<Longrightarrow> Q s s'"
    and cont: "\<And>s s' y. loop_body E P \<theta> bs r s = (False, s') \<Longrightarrow> Q s' y \<Longrightarrow> Q s y"
  shows "Q s y"
proof -
  define R where "R = (\<lambda>x y. case x of (((((E', P'), \<theta>'), bs'), r'), s) \<Rightarrow>
      E' = E \<and> P' = P \<and> \<theta>' = \<theta> \<and> bs' = bs \<and> r' = r \<longrightarrow> Q s y)"
  have "R (((((E, P), \<theta>), bs), r), s) y"
  proof (rule experience_loop.raw_induct [OF _ run])
    fix f E' P' \<theta>' bs' r' s y
    assume IH: "\<And>E P \<theta> bs r s y. f E P \<theta> bs r s = Some y \<Longrightarrow> R (((((E, P), \<theta>), bs), r), s) y"
      and body: "(let (brk, s') = loop_body E' P' \<theta>' bs' r' s
                  in if brk then Some s' else f E' P' \<theta>' bs' r' s') = Some y"
    show "R (((((E', P'), \<theta>'), bs'), r'), s) y"
    proof (cases "loop_body E' P' \<theta>' bs' r' s")
      case (Pair b s')
      show ?thesis
      proof (cases b)
        case True
        with Pair body have "y = s'" by simp
        with Pair True show ?thesis by (auto simp: R_def intro: brk)
      next
        case False
        with Pair body have "f E' P' \<theta>' bs' r' s' = Some y" by simp
        from IH [OF this] Pair False show ?thesis by (auto simp: R_def intro: cont)
      qed
    qed
  qed
  then show ?thesis by (simp add: R_def)
qed

lemma py_sum_eq: "py_sum xs = sum_list xs"
proof -
  have "foldl (+) a xs = a + sum_list xs" for a :: real
    by (induction xs arbitrary: a) simp_all
  then show ?thesis by (simp add: py_sum_def)
qed

lemma loop_body_interact:
  assumes "interact E P \<theta> r (obs s, env_state s, finished_rendering_this_epoch s) = (t, c')"
    and "loop_body E P \<theta> bs r s = (brk, s')"
  shows "batch_obs s' = batch_obs s @ [t_obs t]"
    and "batch_acts s' = batch_acts s @ [t_act t]"
    and "(obs s', env_state s', finished_rendering_this_epoch s') = c'"
    and "t_term t \<Longrightarrow> brk = (bs < int (length (batch_obs s)) + 1)"
    and "t_term t \<Longrightarrow> batch_weights s' = batch_weights s @
            replicate (Suc (length (ep_rews s))) (sum_list (ep_rews s @ [t_rew t]))"
    and "t_term t \<Longrightarrow> batch_rets s' = batch_rets s @ [sum_list (ep_rews s @ [t_rew t])]"
    and "t_term t \<Longrightarrow> batch_lens s' = batch_lens s @ [Suc (length (ep_rews s))]"
    and "t_term t \<Longrightarrow> ep_rews s' = []"
    and "t_term t \<Longrightarrow> printed s' = printed s @ [EpisodeLength (Suc (length (ep_rews s)))]"
    and "\<not> t_term t \<Longrightarrow> \<not> brk"
    and "\<not> t_term t \<Longrightarrow> batch_weights s' = batch_weights s"
    and "\<not> t_term t \<Longrightarrow> batch_rets s' = batch_rets s"
    and "\<not> t_term t \<Longrightarrow> batch_lens s' = batch_lens s"
    and "\<not> t_term t \<Longrightarrow> ep_rews s' = ep_rews s @ [t_rew t]"
    and "\<not> t_term t \<Longrightarrow> printed s' = printed s"
  using assms
  by (auto simp: interact_def loop_body_def get_action_def Let_def py_sum_eq
           split: prod.splits if_splits)

lemma collected_break:
  assumes "loop_body E P \<theta> bs r s = (True, s')"
  shows "collected E P \<theta> bs r s s' 1"
proof -
  obtain t c' where i: "interact E P \<theta> r (obs s, env_state s, finished_rendering_this_epoch s) = (t, c')"
    by (cases "interact E P \<theta> r (obs s, env_state s, finished_rendering_this_epoch s)")
  note f = loop_body_interact [OF i assms]
  from f(10) have tt: "t_term t" by blast
  have tr: "rollout E P \<theta> r 1 (obs s, env_state s, finished_rendering_this_epoch s) = [t]"
    using i by simp
  show ?thesis
    unfolding collected_def tr Let_def
    using tt f(1,2) f(4-9) [OF tt] by (simp add: return_weights_def)
qed

lemma collected_continue:
  assumes lb: "loop_body E P \<theta> bs r s = (False, s')"
    and rest: "collected E P \<theta> bs r s' y n"
  shows "collected E P \<theta> bs r s y (Suc n)"
proof -
  obtain t c' where i: "interact E P \<theta> r (obs s, env_state s, finished_rendering_this_epoch s) = (t, c')"
    by (cases "interact E P \<theta> r (obs s, env_state s, finished_rendering_this_epoch s)")
  note f = loop_body_interact [OF i lb]
  have tr: "rollout E P \<theta> r (Suc n) (obs s, env_state s, finished_rendering_this_epoch s)
      = t # rollout E P \<theta> r n (obs s', env_state s', finished_rendering_this_epoch s')"
    using i f(3) by simp
  show ?thesis
  proof (cases "t_term t")
    case True
    from rest show ?thesis
      unfolding collected_def tr Let_def
      using True f(1,2) f(4-9) [OF True] by (simp add: return_weights_def)
  next
    case False
    from rest show ?thesis
      unfolding collected_def tr Let_def
      using False f(1,2) f(10-15) [OF False] by simp
  qed
qed

lemma experience_loop_collected:
  assumes "experience_loop E P \<theta> bs r s = Some s'"
  shows "\<exists>n. collected E P \<theta> bs r s s' n"
  by (rule experience_loop_induct [OF assms]) (blast intro: collected_break collected_continue)+

lemma length_rollout: "length (rollout E P \<theta> r n c) = n"
  by (induction n arbitrary: c) (simp_all split: prod.splits)

lemma episode_ends_gt: "m \<in> set (episode_ends k tr) \<Longrightarrow> k < m"
proof (induction tr arbitrary: k)
  case Nil
  then show ?case by simp
next
  case (Cons t tr)
  then show ?case by (fastforce split: if_splits)
qed

lemma episode_ends_member:
  "m \<in> set (episode_ends k tr) \<Longrightarrow> k < m \<and> m \<le> k + length tr \<and> t_term (tr ! (m - Suc k))"
proof (induction tr arbitrary: k)
  case Nil
  then show ?case by simp
next
  case (Cons t tr)
  show ?case
  proof (cases "m = Suc k")
    case True
    with Cons.prems show ?thesis
      by (auto split: if_splits dest: episode_ends_gt)
  next
    case False
    with Cons.prems have "m \<in> set (episode_ends (Suc k) tr)"
      by (auto split: if_splits)
    from Cons.IH [OF this] show ?thesis
      by (auto simp: nth_Cons' Suc_diff_Suc)
  qed
qed

lemma experience_loop_terminates:
  assumes "find (\<lambda>m. bs < int m)
             (episode_ends (length (batch_obs s))
                (rollout E P \<theta> r N (obs s, env_state s, finished_rendering_this_epoch s))) \<noteq> None"
  shows "experience_loop E P \<theta> bs r s \<noteq> None"
  using assms
proof (induction N arbitrary: s)
  case 0
  then show ?case by simp
next
  case (Suc N)
  obtain t c' where i: "interact E P \<theta> r (obs s, env_state s, finished_rendering_this_epoch s) = (t, c')"
    by (cases "interact E P \<theta> r (obs s, env_state s, finished_rendering_this_epoch s)")
  obtain brk s' where lb: "loop_body E P \<theta> bs r s = (brk, s')"
    by (cases "loop_body E P \<theta> bs r s")
  note f = loop_body_interact [OF i lb]
  show ?case
  proof (cases brk)
    case True
    with lb show ?thesis by (subst experience_loop.simps) simp
  next
    case False
    have "find (\<lambda>m. bs < int m)
             (episode_ends (length (batch_obs s'))
                (rollout E P \<theta> r N (obs s', env_state s', finished_rendering_this_epoch s'))) \<noteq> None"
      using Suc.prems i f(1,3) f(4) False by (auto split: if_splits)
    from Suc.IH [OF this] lb False show ?thesis
      by (subst experience_loop.simps) simp
  qed
qed

text \<open>
  The loop returns exactly when the trajectory reaches an episode boundary past the batch
  size.
\<close>

lemma experience_loop_returns_iff:
  "experience_loop E P \<theta> bs r s \<noteq> None \<longleftrightarrow>
     (\<exists>N. find (\<lambda>m. bs < int m)
            (episode_ends (length (batch_obs s))
               (rollout E P \<theta> r N (obs s, env_state s, finished_rendering_this_epoch s))) \<noteq> None)"
proof
  assume "experience_loop E P \<theta> bs r s \<noteq> None"
  then obtain s' where "experience_loop E P \<theta> bs r s = Some s'" by blast
  from experience_loop_collected [OF this] obtain n where "collected E P \<theta> bs r s s' n" ..
  then have "find (\<lambda>m. bs < int m)
            (episode_ends (length (batch_obs s))
               (rollout E P \<theta> r n (obs s, env_state s, finished_rendering_this_epoch s))) \<noteq> None"
    by (simp add: collected_def Let_def)
  then show "\<exists>N. find (\<lambda>m. bs < int m)
            (episode_ends (length (batch_obs s))
               (rollout E P \<theta> r N (obs s, env_state s, finished_rendering_this_epoch s))) \<noteq> None" ..
next
  assume "\<exists>N. find (\<lambda>m. bs < int m)
            (episode_ends (length (batch_obs s))
               (rollout E P \<theta> r N (obs s, env_state s, finished_rendering_this_epoch s))) \<noteq> None"
  then show "experience_loop E P \<theta> bs r s \<noteq> None"
    using experience_loop_terminates by blast
qed

lemma concat_replicate_length:
  "length (return_weights eps) = length (concat eps)"
  by (induction eps) (simp_all add: return_weights_def)

lemma sum_list_lengths: "sum_list (map length eps) = length (concat eps)"
  by (induction eps) simp_all

lemma return_weights_nth:
  "j < length eps \<Longrightarrow> i < length (eps ! j) \<Longrightarrow>
     return_weights eps ! (length (concat (take j eps)) + i) = sum_list (eps ! j)"
proof (induction eps arbitrary: j)
  case Nil
  then show ?case by simp
next
  case (Cons e eps)
  show ?case
  proof (cases j)
    case 0
    with Cons.prems show ?thesis by (simp add: return_weights_def nth_append)
  next
    case (Suc j')
    with Cons.prems have "return_weights eps ! (length (concat (take j' eps)) + i) = sum_list (eps ! j')"
      by (intro Cons.IH) simp_all
    with Suc show ?thesis by (simp add: return_weights_def nth_append)
  qed
qed

lemma init_collected:
  assumes "experience_loop E P \<theta> bs r (init_collect ob w ls) = Some s"
  shows "collected E P \<theta> bs r (init_collect ob w ls) s (length (batch_obs s))"
proof -
  from experience_loop_collected [OF assms] obtain n
    where c: "collected E P \<theta> bs r (init_collect ob w ls) s n" ..
  then have "length (batch_obs s) = n"
    by (simp add: collected_def Let_def init_collect_def length_rollout)
  with c show ?thesis by simp
qed

subsection \<open>The stub environment, step by step\<close>

lemma stub_body:
  "loop_body stub_env stub_policy \<theta> bs render s =
     (if 1 \<le> env_state s then
        (bs < int (length (batch_obs s)) + 1,
         \<lparr>batch_obs = batch_obs s @ [obs s],
          batch_acts = batch_acts s @ [0],
          batch_weights = batch_weights s @
            replicate (Suc (length (ep_rews s))) (sum_list (ep_rews s) + 1),
          batch_rets = batch_rets s @ [sum_list (ep_rews s) + 1],
          batch_lens = batch_lens s @ [Suc (length (ep_rews s))],
          ep_rews = [], obs = (), ep_done = False, finished_rendering_this_epoch = True,
          env_state = 0, printed = printed s @ [EpisodeLength (Suc (length (ep_rews s)))]\<rparr>)
      else
        (False,
         s\<lparr>batch_obs := batch_obs s @ [obs s], batch_acts := batch_acts s @ [0],
           ep_rews := ep_rews s @ [1], obs := (), ep_done := False,
           env_state := Suc (env_state s)\<rparr>))"
  by (auto simp: loop_body_def stub_env_def stub_policy_def get_action_def py_sum_eq Let_def)

lemma stub_run_3:
  "experience_loop stub_env stub_policy \<theta> 3 render (init_collect () 0 ls) =
     Some \<lparr>batch_obs = [(), (), (), ()], batch_acts = [0, 0, 0, 0],
           batch_weights = [2, 2, 2, 2], batch_rets = [2, 2], batch_lens = [2, 2],
           ep_rews = [], obs = (), ep_done = False, finished_rendering_this_epoch = True,
           env_state = 0, printed = ls @ [EpisodeLength 2, EpisodeLength 2]\<rparr>"
  apply (subst experience_loop.simps, simp add: stub_body init_collect_def)
  apply (subst experience_loop.simps, simp add: stub_body init_collect_def)
  apply (subst experience_loop.simps, simp add: stub_body init_collect_def)
  apply (subst experience_loop.simps, simp add: stub_body init_collect_def)
  done

lemma stub_run_2:
  "experience_loop stub_env stub_policy \<theta> 2 render (init_collect () 0 ls) =
     Some \<lparr>batch_obs = [(), (), (), ()], batch_acts = [0, 0, 0, 0],
           batch_weights = [2, 2, 2, 2], batch_rets = [2, 2], batch_lens = [2, 2],
           ep_rews = [], obs = (), ep_done = False, finished_rendering_this_epoch = True,
           env_state = 0, printed = ls @ [EpisodeLength 2, EpisodeLength 2]\<rparr>"
  apply (subst experience_loop.simps, simp add: stub_body init_collect_def)
  apply (subst experience_loop.simps, simp add: stub_body init_collect_def)
  apply (subst experience_loop.simps, simp add: stub_body init_collect_def)
  apply (subst experience_loop.simps, simp add: stub_body init_collect_def)
  done

lemma stub_rollout_4:
  "rollout stub_env stub_policy \<theta> render 4 ((), 0, False) =
    [\<lparr>t_obs = (), t_act = 0, t_rew = 1, t_term = False\<rparr>,
     \<lparr>t_obs = (), t_act = 0, t_rew = 1, t_term = True\<rparr>,
     \<lparr>t_obs = (), t_act = 0, t_rew = 1, t_term = False\<rparr>,
     \<lparr>t_obs = (), t_act = 0, t_rew = 1, t_term = True\<rparr>]"
  by (simp add: numeral_eq_Suc interact_def stub_env_def stub_policy_def)

lemma stub_rollout_Suc4:
  "rollout stub_env stub_policy \<theta> render (Suc (Suc (Suc (Suc 0)))) ((), 0, False) =
     rollout stub_env stub_policy \<theta> render 4 ((), 0, False)"
proof -
  have "Suc (Suc (Suc (Suc 0))) = (4::nat)" by simp
  then show ?thesis by (simp only:)
qed

lemma batch_lengths:
  assumes "experience_loop E P \<theta> batch_size render (init_collect ob w ls) = Some s"
  shows "length (batch_obs s) = length (batch_acts s)"
    and "length (batch_acts s) = length (batch_weights s)"
    and "length (batch_weights s) = sum_list (batch_lens s)"
    and "batch_obs s \<noteq> []"
proof -
  define tr where "tr = rollout E P \<theta> render (length (batch_obs s)) (ob, w, False)"
  define eps where "eps = episode_rewards [] tr"
  from init_collected [OF assms]
  have o: "batch_obs s = map t_obs tr" and a: "batch_acts s = map t_act tr"
    and wt: "batch_weights s = return_weights eps" and l: "batch_lens s = map length eps"
    and cc: "concat eps = map t_rew tr" and n: "0 < length (batch_obs s)"
    by (simp_all add: collected_def Let_def init_collect_def tr_def eps_def)
  from cc have "length (concat eps) = length tr"
    by (metis length_map)
  then show "length (batch_obs s) = length (batch_acts s)"
    and "length (batch_acts s) = length (batch_weights s)"
    and "length (batch_weights s) = sum_list (batch_lens s)"
    by (simp_all add: o a wt l concat_replicate_length sum_list_lengths)
  from n show "batch_obs s \<noteq> []" by auto
qed

subsection \<open>Properties of a collected batch\<close>

text \<open>
  C2, as amended. When the experience loop of an epoch returns, the \<open>n\<close> collected steps are
  the first \<open>n\<close> steps of the trajectory, the last of them ends an episode (the loop never
  stops inside an episode), and \<open>n\<close> is the first episode boundary at which the number of
  steps is strictly greater than \<open>batch_size\<close>.
\<close>

theorem stops_at_first_boundary_past_batch_size:
  assumes "experience_loop E P \<theta> batch_size render (init_collect ob w ls) = Some s"
  shows "(let n = length (batch_obs s);
              tr = rollout E P \<theta> render n (ob, w, False)
          in batch_obs s = map t_obs tr \<and> batch_acts s = map t_act tr \<and>
             0 < n \<and> t_term (tr ! (n - 1)) \<and> ep_rews s = [] \<and>
             find (\<lambda>m. batch_size < int m) (episode_ends 0 tr) = Some n)"
proof -
  define n where "n = length (batch_obs s)"
  define tr where "tr = rollout E P \<theta> render n (ob, w, False)"
  from init_collected [OF assms]
  have o: "batch_obs s = map t_obs tr" and a: "batch_acts s = map t_act tr"
    and n: "0 < n" and e: "ep_rews s = []"
    and f: "find (\<lambda>m. batch_size < int m) (episode_ends 0 tr) = Some n"
    by (simp_all add: collected_def Let_def init_collect_def tr_def n_def)
  from f have "n \<in> set (episode_ends 0 tr)"
    by (auto simp: find_Some_iff)
  from episode_ends_member [OF this] have "t_term (tr ! (n - 1))" by simp
  then show ?thesis
    unfolding Let_def n_def [symmetric] tr_def [symmetric]
    using o a n e f by simp
qed

theorem stops_at_first_boundary_past_batch_size_witness:
  "experience_loop stub_env stub_policy [Fin 0, Fin 0] 3 False (init_collect () 0 []) \<noteq> None \<and>
   find (\<lambda>m. 3 < int m)
     (episode_ends 0 (rollout stub_env stub_policy [Fin 0, Fin 0] False 4 ((), 0, False))) = Some 4"
  using stops_at_first_boundary_past_batch_size [OF stub_run_3 [of "[Fin 0, Fin 0]" False "[]"]]
  by (simp add: stub_run_3 stub_rollout_Suc4 stub_rollout_4 del: rollout.simps)

text \<open>
  The claim as the specification words it, with the first boundary at or after the batch
  size, fails: with a batch size of 2 the stub's first episode ends after 2 steps, which is
  at the batch size, and the loop goes on to collect 4.
\<close>

theorem stops_at_boundary_geq_batch_size_counterexample:
  "map_option (length \<circ> batch_obs)
     (experience_loop stub_env stub_policy [Fin 0, Fin 0] 2 False (init_collect () 0 [])) = Some 4 \<and>
   find ((\<le>) 2 \<circ> int)
     (episode_ends 0 (rollout stub_env stub_policy [Fin 0, Fin 0] False 4 ((), 0, False))) = Some 2"
  by (simp add: stub_run_2 stub_rollout_4)

text \<open>
  C3. When the experience loop of an epoch returns, the trajectory splits into completed
  episodes only, the recorded returns and lengths are the reward sums and lengths of these
  episodes, and every step of an episode carries as its weight the sum of all rewards of that
  episode: the weight at the \<open>i\<close>-th step of the \<open>j\<close>-th episode is the \<open>j\<close>-th episode's
  reward sum.
\<close>

theorem weights_are_episode_returns:
  assumes "experience_loop E P \<theta> batch_size render (init_collect ob w ls) = Some s"
  shows "(let tr = rollout E P \<theta> render (length (batch_obs s)) (ob, w, False);
              eps = episode_rewards [] tr
          in concat eps = map t_rew tr \<and>
             batch_rets s = map sum_list eps \<and>
             batch_lens s = map length eps \<and>
             batch_weights s = return_weights eps \<and>
             (\<forall>j < length eps. \<forall>i < length (eps ! j).
                batch_weights s ! (length (concat (take j eps)) + i) = sum_list (eps ! j)))"
proof -
  define tr where "tr = rollout E P \<theta> render (length (batch_obs s)) (ob, w, False)"
  define eps where "eps = episode_rewards [] tr"
  from init_collected [OF assms]
  have wt: "batch_weights s = return_weights eps" and l: "batch_lens s = map length eps"
    and rt: "batch_rets s = map sum_list eps"
    and cc: "concat eps = map t_rew tr"
    by (simp_all add: collected_def Let_def init_collect_def tr_def eps_def)
  show ?thesis
    unfolding Let_def tr_def [symmetric] eps_def [symmetric]
    by (simp add: wt l rt cc return_weights_nth)
qed

theorem weights_are_episode_returns_witness:
  "experience_loop stub_env stub_policy [Fin 0, Fin 0] 3 False (init_collect () 0 []) \<noteq> None \<and>
   map_option batch_weights
     (experience_loop stub_env stub_policy [Fin 0, Fin 0] 3 False (init_collect () 0 [])) =
   Some (return_weights
     (episode_rewards [] (rollout stub_env stub_policy [Fin 0, Fin 0] False 4 ((), 0, False))))"
  using weights_are_episode_returns [OF stub_run_3 [of "[Fin 0, Fin 0]" False "[]"]]
  by (simp add: stub_run_3 stub_rollout_Suc4 stub_rollout_4 return_weights_def
        del: rollout.simps)

text \<open>
  C5. In the stub environment, whose episodes all end after exactly two steps with reward one
  per step, one pass of batch collection with batch size 3 returns, and it has collected two
  full episodes, four steps, each with weight 2.
\<close>

theorem stub_scenario:
  "\<exists>s. experience_loop stub_env stub_policy \<theta> 3 render
          (init_collect (fst (env_reset stub_env w)) (snd (env_reset stub_env w)) ls) = Some s \<and>
        batch_lens s = [2, 2] \<and> length (batch_obs s) = 4 \<and> batch_weights s = [2, 2, 2, 2]"
proof -
  have "env_reset stub_env w = ((), 0)"
    by (simp add: stub_env_def)
  then show ?thesis
    by (simp add: stub_run_3)
qed

text \<open>
  C10. When the experience loop of an epoch returns, that is when the loss is computed, the
  lists of observations, actions and weights have the same length, and this length is the sum
  of the recorded episode lengths.
\<close>

theorem batch_lists_same_length:
  assumes "experience_loop E P \<theta> batch_size render (init_collect ob w ls) = Some s"
  shows "length (batch_obs s) = length (batch_acts s) \<and>
         length (batch_acts s) = length (batch_weights s) \<and>
         length (batch_weights s) = sum_list (batch_lens s)"
  using batch_lengths [OF assms] by simp

theorem batch_lists_same_length_witness:
  "map_option (\<lambda>s. (length (batch_obs s), length (batch_acts s), length (batch_weights s),
                    sum_list (batch_lens s)))
     (experience_loop stub_env stub_policy [Fin 0, Fin 0] 3 False (init_collect () 0 [])) =
   Some (4, 4, 4, 4)"
  using batch_lists_same_length [OF stub_run_3 [of "[Fin 0, Fin 0]" False "[]"]]
  by (simp add: stub_run_3)

subsection \<open>The loss\<close>

lemma broadcast_same_length:
  "length xs = length ys \<Longrightarrow> broadcast xs ys = Inr (zip xs ys)"
  by (simp add: broadcast_def)

lemma sum_list_zip3:
  assumes "length obsv = length act" and "length act = length weights"
  shows "sum_list (map (\<lambda>(l, w). l * w) (zip (map (\<lambda>(ob, a). f ob a) (zip obsv act)) weights)) =
         (\<Sum>i < length obsv. f (obsv ! i) (act ! i) * weights ! i)"
proof -
  let ?xs = "map (\<lambda>(l, w). l * w) (zip (map (\<lambda>(ob, a). f ob a) (zip obsv act)) weights)"
  have len: "length ?xs = length obsv" using assms by simp
  have "sum_list ?xs = (\<Sum>i = 0 ..< length ?xs. ?xs ! i)"
    by (rule sum_list_sum_nth)
  also have "\<dots> = (\<Sum>i = 0 ..< length obsv. f (obsv ! i) (act ! i) * weights ! i)"
    unfolding len using assms by (intro sum.cong) simp_all
  finally show ?thesis by (simp add: atLeast0LessThan)
qed

lemma compute_loss_same_length:
  assumes "length obsv = length act" and "length act = length weights" and "obsv \<noteq> []"
  shows "compute_loss P \<theta> obsv act weights =
           Inr (Some (- ((\<Sum>i < length obsv. log_prob P \<theta> (obsv ! i) (act ! i) * weights ! i)
                          / real (length obsv))))"
proof -
  have "length (map (\<lambda>(ob, a). log_prob P \<theta> ob a) (zip obsv act)) = length weights"
    using assms by simp
  then have b2: "broadcast (map (\<lambda>(ob, a). log_prob P \<theta> ob a) (zip obsv act)) weights =
      Inr (zip (map (\<lambda>(ob, a). log_prob P \<theta> ob a) (zip obsv act)) weights)"
    by (rule broadcast_same_length)
  have ne: "weights \<noteq> []" using assms by auto
  show ?thesis
    using assms ne
    by (auto simp: compute_loss_def broadcast_same_length b2 tensor_mean_def sum_list_zip3 Let_def)
qed

lemma compute_loss_collected:
  assumes "experience_loop E P \<theta> bs r (init_collect ob w ls) = Some s"
  shows "\<exists>l. compute_loss P \<theta>' (batch_obs s) (batch_acts s) (batch_weights s) = Inr (Some l)"
proof -
  from batch_lengths [OF assms] show ?thesis
    by (simp add: compute_loss_same_length)
qed

text \<open>
  \<open>loss_gradient\<close> is the gradient of the loss: when \<open>dlog_prob\<close> is the partial derivative
  of \<open>log_prob\<close> in the \<open>i\<close>-th parameter, the \<open>i\<close>-th component of \<open>loss_gradient\<close> is the
  partial derivative of the loss of the batch in the \<open>i\<close>-th parameter.
\<close>

lemma sum_list_zip_terms:
  assumes "length obsv = length act" and "length act = length weights"
  shows "sum_list (map (\<lambda>((ob, a), w). f ob a * w) (zip (zip obsv act) weights)) =
         (\<Sum>j < length obsv. f (obsv ! j) (act ! j) * weights ! j)"
proof -
  let ?xs = "map (\<lambda>((ob, a), w). f ob a * w) (zip (zip obsv act) weights)"
  have len: "length ?xs = length obsv" using assms by simp
  have "sum_list ?xs = (\<Sum>j = 0 ..< length ?xs. ?xs ! j)"
    by (rule sum_list_sum_nth)
  also have "\<dots> = (\<Sum>j = 0 ..< length obsv. f (obsv ! j) (act ! j) * weights ! j)"
    unfolding len using assms by (intro sum.cong) simp_all
  finally show ?thesis by (simp add: atLeast0LessThan)
qed

lemma loss_gradient_nth:
  assumes "length obsv = length act" and "length act = length weights" and "i < length \<theta>"
  shows "loss_gradient P \<theta> obsv act weights ! i =
           - ((\<Sum>j < length obsv. dlog_prob P \<theta> (obsv ! j) (act ! j) i * weights ! j)
                / real (length obsv))"
  using assms
  by (simp add: loss_gradient_def broadcast_same_length
        sum_list_zip_terms [where f = "\<lambda>ob a. dlog_prob P \<theta> ob a i"])

lemma loss_gradient_is_derivative:
  assumes "length obsv = length act" and "length act = length weights" and "i < length \<theta>"
    and d: "\<And>ob a. ((\<lambda>x. log_prob P (\<theta>[i := Fin x]) ob a) has_real_derivative
                       dlog_prob P \<theta> ob a i) (at (fin_val (\<theta> ! i)))"
  shows "((\<lambda>x. - ((\<Sum>j < length obsv. log_prob P (\<theta>[i := Fin x]) (obsv ! j) (act ! j) * weights ! j)
                    / real (length obsv))) has_real_derivative
            loss_gradient P \<theta> obsv act weights ! i) (at (fin_val (\<theta> ! i)))"
  unfolding loss_gradient_nth [OF assms(1-3)]
  by (cases "obsv = []") (auto intro!: derivative_eq_intros d simp: sum_divide_distrib)

text \<open>
  C4. For a batch of observations, actions and weights (one of each per step, at least one
  step), the loss is the negated mean over the batch of the log-probability of the action
  taken times its weight.
\<close>

theorem compute_loss_negated_mean:
  assumes "length obsv = length act" and "length act = length weights" and "obsv \<noteq> []"
  shows "compute_loss P \<theta> obsv act weights =
           Inr (Some (- ((\<Sum>i < length obsv. log_prob P \<theta> (obsv ! i) (act ! i) * weights ! i)
                          / real (length obsv))))"
  using assms by (rule compute_loss_same_length)

theorem compute_loss_negated_mean_witness:
  "length [(), ()] = length [0::nat, 0] \<and> length [0::nat, 0] = length [2::real, 2] \<and>
   [(), ()] \<noteq> [] \<and>
   compute_loss stub_policy [Fin 0, Fin 0] [(), ()] [0, 0] [2, 2] = Inr (Some (2 * ln 2))"
  using compute_loss_negated_mean [of "[(), ()]" "[0, 0]" "[2, 2]" stub_policy "[Fin 0, Fin 0]"]
  by (simp add: stub_policy_def lessThan_Suc numeral_2_eq_2)

subsection \<open>The optimizer step\<close>

lemma optimizer_step_shapes:
  assumes "length g = length \<theta>" and "moments_ok opt (length \<theta>)"
  shows "length (snd (optimizer_step rnd opt \<theta> (Some g))) = length \<theta>"
    and "moments_ok (fst (optimizer_step rnd opt \<theta> (Some g))) (length \<theta>)"
    and "opt_lr (fst (optimizer_step rnd opt \<theta> (Some g))) = opt_lr opt"
    and "steps_taken (fst (optimizer_step rnd opt \<theta> (Some g))) = Suc (steps_taken opt)"
  using assms
  by (auto simp: optimizer_step_def moments_ok_def steps_taken_def Let_def split: option.splits)








subsection \<open>One epoch and the training loop\<close>


lemma train_one_epoch_cases:
  assumes "train_one_epoch rnd E P bs r ts = Some res"
  obtains s l where
    "experience_loop E P (params ts) bs r
       (init_collect (fst (env_reset E (world ts))) (snd (env_reset E (world ts))) (out ts)) = Some s"
    and "compute_loss P (params ts) (batch_obs s) (batch_acts s) (batch_weights s) = Inr (Some l)"
    and "res = Inr (\<lparr>params = snd (optimizer_step rnd (optim ts) (params ts)
                          (backward rnd (grad ts) (loss_gradient P (params ts) (batch_obs s)
                             (batch_acts s) (batch_weights s)))),
                      grad = backward rnd (grad ts) (loss_gradient P (params ts) (batch_obs s)
                             (batch_acts s) (batch_weights s)),
                      optim = fst (optimizer_step rnd (optim ts) (params ts)
                          (backward rnd (grad ts) (loss_gradient P (params ts) (batch_obs s)
                             (batch_acts s) (batch_weights s)))),
                      world = env_state s, out = printed s\<rparr>,
                    l, batch_rets s, batch_lens s)"
proof -
  let ?s0 = "init_collect (fst (env_reset E (world ts))) (snd (env_reset E (world ts))) (out ts)"
  from assms obtain s where run: "experience_loop E P (params ts) bs r ?s0 = Some s"
    by (auto simp: train_one_epoch_def split_beta split: option.splits)
  from compute_loss_collected [OF run] obtain l
    where l: "compute_loss P (params ts) (batch_obs s) (batch_acts s) (batch_weights s) = Inr (Some l)"
    by blast
  from assms run l
  have "res = Inr (\<lparr>params = snd (optimizer_step rnd (optim ts) (params ts)
                          (backward rnd (grad ts) (loss_gradient P (params ts) (batch_obs s)
                             (batch_acts s) (batch_weights s)))),
                      grad = backward rnd (grad ts) (loss_gradient P (params ts) (batch_obs s)
                             (batch_acts s) (batch_weights s)),
                      optim = fst (optimizer_step rnd (optim ts) (params ts)
                          (backward rnd (grad ts) (loss_gradient P (params ts) (batch_obs s)
                             (batch_acts s) (batch_weights s)))),
                      world = env_state s, out = printed s\<rparr>,
                    l, batch_rets s, batch_lens s)"
    by (simp add: train_one_epoch_def Let_def split_beta)
  with run l show ?thesis by (rule that)
qed

lemma train_one_epoch_run:
  assumes "experience_loop E P (params ts) bs r
       (init_collect (fst (env_reset E (world ts))) (snd (env_reset E (world ts))) (out ts)) = Some s"
  shows "\<exists>l. train_one_epoch rnd E P bs r ts =
     Some (Inr (\<lparr>params = snd (optimizer_step rnd (optim ts) (params ts)
                          (backward rnd (grad ts) (loss_gradient P (params ts) (batch_obs s)
                             (batch_acts s) (batch_weights s)))),
                      grad = backward rnd (grad ts) (loss_gradient P (params ts) (batch_obs s)
                             (batch_acts s) (batch_weights s)),
                      optim = fst (optimizer_step rnd (optim ts) (params ts)
                          (backward rnd (grad ts) (loss_gradient P (params ts) (batch_obs s)
                             (batch_acts s) (batch_weights s)))),
                      world = env_state s, out = printed s\<rparr>,
                    l, batch_rets s, batch_lens s))"
proof -
  from compute_loss_collected [OF assms] obtain l
    where l: "compute_loss P (params ts) (batch_obs s) (batch_acts s) (batch_weights s) = Inr (Some l)"
    by blast
  with assms show ?thesis
    by (simp add: train_one_epoch_def Let_def split_beta)
qed

lemma train_one_epoch_no_failure:
  "train_one_epoch rnd E P bs r ts \<noteq> Some (Inl e)"
proof
  assume "train_one_epoch rnd E P bs r ts = Some (Inl e)"
  then show False by (rule train_one_epoch_cases) simp
qed

lemma training_loop_no_failure:
  "training_loop rnd E P bs r is ts \<noteq> Some (Inl e)"
proof (induction "is" arbitrary: ts)
  case Nil
  then show ?case by simp
next
  case (Cons i "is")
  show ?case
  proof (cases "train_one_epoch rnd E P bs r ts")
    case None
    then show ?thesis by simp
  next
    case (Some res)
    then show ?thesis
      using train_one_epoch_no_failure [of rnd E P bs r ts] Cons.IH
      by (cases res) (auto split: prod.splits)
  qed
qed










subsection \<open>Training in the stub environments\<close>

lemma stub_reset: "env_reset stub_env w = ((), 0)"
  by (simp add: stub_env_def)

lemma stub_epoch:
  "\<exists>l. train_one_epoch rnd stub_env stub_policy 3 r ts =
     Some (Inr (\<lparr>params = snd (optimizer_step rnd (optim ts) (params ts)
                          (backward rnd (grad ts) (loss_gradient stub_policy (params ts)
                             [(), (), (), ()] [0, 0, 0, 0] [2, 2, 2, 2]))),
                  grad = backward rnd (grad ts) (loss_gradient stub_policy (params ts)
                             [(), (), (), ()] [0, 0, 0, 0] [2, 2, 2, 2]),
                  optim = fst (optimizer_step rnd (optim ts) (params ts)
                          (backward rnd (grad ts) (loss_gradient stub_policy (params ts)
                             [(), (), (), ()] [0, 0, 0, 0] [2, 2, 2, 2]))),
                  world = 0, out = out ts @ [EpisodeLength 2, EpisodeLength 2]\<rparr>,
                l, [2, 2], [2, 2]))"
  using train_one_epoch_run [of stub_env stub_policy ts 3 r _ rnd,
      unfolded stub_reset fst_conv snd_conv, OF stub_run_3]
  by simp

text \<open>The stub policy's \<open>dlog_prob\<close> is the derivative of its \<open>log_prob\<close>.\<close>

lemma stub_policy_derivative_0:
  assumes "k < 2"
  shows "((\<lambda>x. log_prob stub_policy [Fin x, b] ob k) has_real_derivative
            dlog_prob stub_policy [Fin a, b] ob k 0) (at a)"
proof -
  have pos: "0 < exp a + exp (fin_val b)" by (simp add: add_pos_pos)
  from assms have "k = 0 \<or> k = 1" by auto
  then show ?thesis
  proof
    assume "k = 0"
    then show ?thesis
      using pos by (auto simp: stub_policy_def intro!: derivative_eq_intros)
  next
    assume "k = 1"
    then show ?thesis
      using pos by (auto simp: stub_policy_def intro!: derivative_eq_intros)
  qed
qed

lemma stub_policy_derivative_1:
  assumes "k < 2"
  shows "((\<lambda>x. log_prob stub_policy [a, Fin x] ob k) has_real_derivative
            dlog_prob stub_policy [a, Fin b] ob k 1) (at b)"
proof -
  have pos: "0 < exp (fin_val a) + exp b" by (simp add: add_pos_pos)
  from assms have "k = 0 \<or> k = 1" by auto
  then show ?thesis
  proof
    assume "k = 0"
    then show ?thesis
      using pos by (auto simp: stub_policy_def intro!: derivative_eq_intros)
  next
    assume "k = 1"
    then show ?thesis
      using pos by (auto simp: stub_policy_def intro!: derivative_eq_intros)
  qed
qed

lemma stub_gradient_at_zero:
  "loss_gradient stub_policy [Fin 0, Fin 0] [(), (), (), ()] [0, 0, 0, 0] [2, 2, 2, 2] = [- 1, 1]"
  by (simp add: loss_gradient_def broadcast_def stub_policy_def)

lemma stub_gradient_length:
  "length \<theta> = 2 \<Longrightarrow>
     \<exists>a b. loss_gradient stub_policy \<theta> [(), (), (), ()] [0, 0, 0, 0] [2, 2, 2, 2] = [a, b]"
  by (simp add: loss_gradient_def broadcast_def numeral_2_eq_2)




lemma stub_first_epoch:
  assumes "to_float rnd (- 1) = Fin (- 1)" and "to_float rnd 1 = Fin 1"
  shows "\<exists>l. train_one_epoch rnd stub_env stub_policy 3 r
          \<lparr>params = [Fin 0, Fin 0], grad = None, optim = \<lparr>opt_lr = lr, opt_state = None\<rparr>,
           world = 0, out = []\<rparr> =
     Some (Inr (\<lparr>params = snd (optimizer_step rnd \<lparr>opt_lr = lr, opt_state = None\<rparr> [Fin 0, Fin 0]
                              (Some [Fin (- 1), Fin 1])),
                  grad = Some [Fin (- 1), Fin 1],
                  optim = fst (optimizer_step rnd \<lparr>opt_lr = lr, opt_state = None\<rparr> [Fin 0, Fin 0]
                              (Some [Fin (- 1), Fin 1])),
                  world = 0, out = [EpisodeLength 2, EpisodeLength 2]\<rparr>,
                l, [2, 2], [2, 2]))"
  using stub_epoch [of rnd r "\<lparr>params = [Fin 0, Fin 0], grad = None,
      optim = \<lparr>opt_lr = lr, opt_state = None\<rparr>, world = 0, out = []\<rparr>"] assms
  by (simp add: stub_gradient_at_zero backward_def)











subsection \<open>The checks of the spaces\<close>


lemma train_Inr_lr:
  assumes "train rnd gym torch env_name hidden_sizes lr epochs batch_size render w = Some (Inr ts)"
  shows "0 \<le> lr"
  using assms
  by (auto simp: train_def Adam_def Let_def split_beta
           split: sum.splits space.splits list.splits if_splits)

text \<open>
  C7. When the observation space is not a \<open>Box\<close>, \<open>train\<close> ends with the assertion error
  about continuous state spaces; when it is one and the action space is not \<open>Discrete\<close>,
  with the assertion error about discrete action spaces; in both cases the world is as it
  was at the call and nothing has been printed, so no step of training has run. When both
  spaces pass, the script checks nothing more: \<open>train\<close> ends with an error in two cases
  only, both raised by what it calls and before any epoch has started, the \<open>IndexError\<close> of
  \<open>shape[0]\<close> when the observation space has an empty shape, and the \<open>ValueError\<close> of the
  optimizer's constructor when the learning rate is negative. (What the environment, the
  network and the sampling may raise is not modelled.)
\<close>

theorem train_space_checks:
  assumes "gym env_name = Inr E"
  shows "((\<nexists>shape. observation_space E = Box shape) \<longrightarrow>
            train rnd gym torch env_name hidden_sizes lr epochs batch_size render w =
              Some (Inl (AssertionError msg_obs, w, []))) \<and>
         ((\<exists>shape. observation_space E = Box shape) \<and> (\<nexists>n. action_space E = Discrete n) \<longrightarrow>
            train rnd gym torch env_name hidden_sizes lr epochs batch_size render w =
              Some (Inl (AssertionError msg_act, w, []))) \<and>
         (\<forall>shape n. observation_space E = Box shape \<and> action_space E = Discrete n \<longrightarrow>
            (\<forall>e w' ls.
               train rnd gym torch env_name hidden_sizes lr epochs batch_size render w =
                 Some (Inl (e, w', ls)) \<longleftrightarrow>
               (shape = [] \<and> e = IndexError \<and> w' = w \<and> ls = []) \<or>
               (shape \<noteq> [] \<and> lr < 0 \<and> e = ValueError \<and>
                w' = snd (init_params
                            (torch (mlp ([hd shape] @ hidden_sizes @ [n]) Tanh Identity)) w) \<and>
                ls = [])))"
proof (intro conjI impI allI)
  assume "\<nexists>shape. observation_space E = Box shape"
  then show "train rnd gym torch env_name hidden_sizes lr epochs batch_size render w =
              Some (Inl (AssertionError msg_obs, w, []))"
    using assms by (cases "observation_space E") (simp_all add: train_def)
next
  assume "(\<exists>shape. observation_space E = Box shape) \<and> (\<nexists>n. action_space E = Discrete n)"
  then show "train rnd gym torch env_name hidden_sizes lr epochs batch_size render w =
              Some (Inl (AssertionError msg_act, w, []))"
    using assms by (cases "action_space E") (auto simp: train_def)
next
  fix shape n e w' ls
  assume sp: "observation_space E = Box shape \<and> action_space E = Discrete n"
  show "train rnd gym torch env_name hidden_sizes lr epochs batch_size render w =
          Some (Inl (e, w', ls)) \<longleftrightarrow>
        (shape = [] \<and> e = IndexError \<and> w' = w \<and> ls = []) \<or>
        (shape \<noteq> [] \<and> lr < 0 \<and> e = ValueError \<and>
         w' = snd (init_params
                     (torch (mlp ([hd shape] @ hidden_sizes @ [n]) Tanh Identity)) w) \<and>
         ls = [])"
  proof (cases shape)
    case Nil
    with assms sp show ?thesis by (auto simp: train_def)
  next
    case (Cons obs_dim rest)
    show ?thesis
    proof (cases "lr < 0")
      case True
      with assms sp Cons show ?thesis
        by (auto simp: train_def Adam_def Let_def split_beta)
    next
      case False
      with assms sp Cons show ?thesis
        by (auto simp: train_def Adam_def Let_def split_beta training_loop_no_failure)
    qed
  qed
qed

theorem train_space_checks_witness:
  "train Fin (\<lambda>n. Inr (stub_env\<lparr>observation_space := Discrete 3\<rparr>)) stub_torch
     ''Stub-v0'' [32] (1 / 100) 50 5000 False 0 = Some (Inl (AssertionError msg_obs, 0, [])) \<and>
   train Fin (\<lambda>n. Inr (stub_env\<lparr>action_space := Box [2]\<rparr>)) stub_torch
     ''Stub-v0'' [32] (1 / 100) 50 5000 False 0 = Some (Inl (AssertionError msg_act, 0, [])) \<and>
   train Fin (\<lambda>n. Inr (stub_env\<lparr>observation_space := Box []\<rparr>)) stub_torch
     ''Stub-v0'' [32] (1 / 100) 50 5000 False 0 = Some (Inl (IndexError, 0, [])) \<and>
   train Fin stub_gym stub_torch ''Stub-v0'' [32] (- 1) 50 5000 False 0 =
     Some (Inl (ValueError, 0, [])) \<and>
   (\<forall>e w' ls. train Fin stub_gym stub_torch ''Stub-v0'' [32] (1 / 100) 50 5000 False 0 \<noteq>
      Some (Inl (e, w', ls)))"
proof -
  have a: "(\<nexists>shape. observation_space (stub_env\<lparr>observation_space := Discrete 3\<rparr>) = Box shape)"
    by simp
  have b: "(\<exists>shape. observation_space (stub_env\<lparr>action_space := Box [2]\<rparr>) = Box shape) \<and>
           (\<nexists>n. action_space (stub_env\<lparr>action_space := Box [2]\<rparr>) = Discrete n)"
    by (simp add: stub_env_def)
  have c: "observation_space (stub_env\<lparr>observation_space := Box []\<rparr>) = Box [] \<and>
           action_space (stub_env\<lparr>observation_space := Box []\<rparr>) = Discrete 2"
    by (simp add: stub_env_def)
  have d: "observation_space stub_env = Box [1] \<and> action_space stub_env = Discrete 2"
    by (simp add: stub_env_def)
  have i: "snd (init_params (stub_torch net) (0::nat)) = 0" for net
    by (simp add: stub_torch_def stub_policy_def)
  note t1 = train_space_checks [of "\<lambda>n. Inr (stub_env\<lparr>observation_space := Discrete 3\<rparr>)"
        "''Stub-v0''" "stub_env\<lparr>observation_space := Discrete 3\<rparr>" Fin stub_torch "[32]"
        "1 / 100" 50 5000 False 0, OF refl]
  note t2 = train_space_checks [of "\<lambda>n. Inr (stub_env\<lparr>action_space := Box [2]\<rparr>)"
        "''Stub-v0''" "stub_env\<lparr>action_space := Box [2]\<rparr>" Fin stub_torch "[32]"
        "1 / 100" 50 5000 False 0, OF refl]
  note t3 = train_space_checks [of "\<lambda>n. Inr (stub_env\<lparr>observation_space := Box []\<rparr>)"
        "''Stub-v0''" "stub_env\<lparr>observation_space := Box []\<rparr>" Fin stub_torch "[32]"
        "1 / 100" 50 5000 False 0, OF refl]
  note t4 = train_space_checks [of stub_gym "''Stub-v0''" stub_env Fin stub_torch "[32]"
        "- 1" 50 5000 False 0, OF stub_gym_def]
  note t5 = train_space_checks [of stub_gym "''Stub-v0''" stub_env Fin stub_torch "[32]"
        "1 / 100" 50 5000 False 0, OF stub_gym_def]
  from t1 a have 1: "train Fin (\<lambda>n. Inr (stub_env\<lparr>observation_space := Discrete 3\<rparr>)) stub_torch
     ''Stub-v0'' [32] (1 / 100) 50 5000 False 0 = Some (Inl (AssertionError msg_obs, 0, []))"
    by blast
  from t2 b have 2: "train Fin (\<lambda>n. Inr (stub_env\<lparr>action_space := Box [2]\<rparr>)) stub_torch
     ''Stub-v0'' [32] (1 / 100) 50 5000 False 0 = Some (Inl (AssertionError msg_act, 0, []))"
    by blast
  from t3 c have 3: "train Fin (\<lambda>n. Inr (stub_env\<lparr>observation_space := Box []\<rparr>)) stub_torch
     ''Stub-v0'' [32] (1 / 100) 50 5000 False 0 = Some (Inl (IndexError, 0, []))"
    by blast
  from t4 d i have 4: "train Fin stub_gym stub_torch ''Stub-v0'' [32] (- 1) 50 5000 False 0 =
     Some (Inl (ValueError, 0, []))"
    by auto
  from t5 d have 5: "\<forall>e w' ls. train Fin stub_gym stub_torch ''Stub-v0'' [32] (1 / 100) 50 5000 False 0 \<noteq>
      Some (Inl (e, w', ls))"
    by auto
  from 1 2 3 4 5 show ?thesis by blast
qed

subsection \<open>Learning rate zero\<close>




subsection \<open>The epochs of a run\<close>










subsection \<open>The gradient buffer across epochs\<close>

text \<open>
  C1. The claim that each step uses the gradient of that epoch's batch loss alone does not
  hold of the program: nothing clears the gradient buffer between epochs, so \<open>backward()\<close>
  adds each epoch's gradient to those of the epochs before. In the stub environment with
  learning rate 0.01 (and no rounding), the first epoch leaves the buffer \<open>[-1, 1]\<close>; in the
  second epoch the buffer, on which the optimizer then steps, is that plus the gradient of
  the second batch's loss, and differs from the gradient of the second batch's loss.
\<close>

theorem second_epoch_steps_on_accumulated_gradient:
  "(case train_one_epoch Fin stub_env stub_policy 3 False
           \<lparr>params = [Fin 0, Fin 0], grad = None,
            optim = \<lparr>opt_lr = 1 / 100, opt_state = None\<rparr>, world = 0, out = []\<rparr> of
      Some (Inr (ts1, l1, rets1, lens1)) \<Rightarrow>
        (case train_one_epoch Fin stub_env stub_policy 3 False ts1 of
           Some (Inr (ts2, l2, rets2, lens2)) \<Rightarrow>
             grad ts1 = Some [Fin (- 1), Fin 1] \<and>
             grad ts2 = Some (map2 (fadd Fin) [Fin (- 1), Fin 1]
               (map Fin (loss_gradient stub_policy (params ts1)
                           [(), (), (), ()] [0, 0, 0, 0] [2, 2, 2, 2]))) \<and>
             grad ts2 \<noteq> Some
               (map Fin (loss_gradient stub_policy (params ts1)
                           [(), (), (), ()] [0, 0, 0, 0] [2, 2, 2, 2])) \<and>
             (optim ts2, params ts2) = optimizer_step Fin (optim ts1) (params ts1) (grad ts2)
         | _ \<Rightarrow> False)
    | _ \<Rightarrow> False)"
proof -
  define T1 where "T1 = \<lparr>params = snd (optimizer_step Fin \<lparr>opt_lr = 1 / 100, opt_state = None\<rparr>
                              [Fin 0, Fin 0] (Some [Fin (- 1), Fin 1])),
                  grad = Some [Fin (- 1), Fin 1],
                  optim = fst (optimizer_step Fin \<lparr>opt_lr = 1 / 100, opt_state = None\<rparr>
                              [Fin 0, Fin 0] (Some [Fin (- 1), Fin 1])),
                  world = (0::nat), out = [EpisodeLength 2, EpisodeLength 2]\<rparr>"
  have tf: "to_float Fin x = Fin x" for x
    by (simp add: to_float_def)
  from stub_first_epoch [of Fin False "1 / 100"] obtain l1 where
    e1: "train_one_epoch Fin stub_env stub_policy 3 False
           \<lparr>params = [Fin 0, Fin 0], grad = None,
            optim = \<lparr>opt_lr = 1 / 100, opt_state = None\<rparr>, world = 0, out = []\<rparr> =
         Some (Inr (T1, l1, [2, 2], [2, 2]))"
    unfolding T1_def by (auto simp: tf)
  have "length (params T1) = length [Fin 0, Fin (0::real)]"
    unfolding T1_def train_state.simps
    by (rule optimizer_step_shapes) (simp_all add: moments_ok_def)
  then have "length (params T1) = 2" by simp
  from stub_gradient_length [OF this] obtain a b where
    g2: "loss_gradient stub_policy (params T1) [(), (), (), ()] [0, 0, 0, 0] [2, 2, 2, 2] = [a, b]"
    by blast
  have g1: "grad T1 = Some [Fin (- 1), Fin 1]" by (simp add: T1_def)
  from stub_epoch [of Fin False T1] obtain l2 T2 where
    e2: "train_one_epoch Fin stub_env stub_policy 3 False T1 = Some (Inr (T2, l2, [2, 2], [2, 2]))"
    and t2: "grad T2 = backward Fin (grad T1) [a, b]"
      "(optim T2, params T2) = optimizer_step Fin (optim T1) (params T1) (grad T2)"
    unfolding g2 by auto
  have "fadd Fin (Fin (- 1)) (Fin a) \<noteq> Fin a"
    by simp
  with e2 t2 g1 g2 show ?thesis
    unfolding e1 by (simp add: backward_def tf)
qed

end
